theory Spec2Isabelle
  imports Complex_Main "HOL-Library.Multiset"
begin

section \<open>Data structures of the RNNG parser (rnng\_data\_structures.py)\<close>

text \<open>
  The module defines \<^verbatim>\<open>Element\<close>, the stack LSTM \<^verbatim>\<open>StackLSTM\<close>, two composition
  functions and the beam-search state \<^verbatim>\<open>ParserState\<close>. Python lists are mutable objects
  that several owners may reach, and two of the properties below are about exactly that, so
  lists live in an explicit store and the objects hold references into it. Tuples and
  tensors are never updated in place by this module and are plain values. Tensor entries
  are real numbers; the arithmetic of the recurrent cells and of the linear layers is
  exact, and the sum over rows, where the order of the additions is in question, rounds
  as \<^verbatim>\<open>float32\<close> does. Every exception is a value of \<open>py_error\<close>.
\<close>

subsection \<open>Exceptions, references, the store of list objects\<close>

datatype py_error = IndexError | TypeError | AttributeError | ValueError | RuntimeError
  | BadRef  \<comment> \<open>a reference to no object: no Python state has one\<close>

type_synonym ref = nat

text \<open>A store holds the list objects created so far; a reference is a position in it.\<close>

type_synonym 'a store = "'a list list"

definition new_list :: "'a store \<Rightarrow> 'a list \<Rightarrow> ref \<times> 'a store" where
  "new_list st xs = (length st, st @ [xs])"

definition get_list :: "'a store \<Rightarrow> ref \<Rightarrow> py_error + 'a list" where
  "get_list st r = (if r < length st then Inr (st ! r) else Inl BadRef)"

definition set_list :: "'a store \<Rightarrow> ref \<Rightarrow> 'a list \<Rightarrow> 'a store" where
  "set_list st r xs = st[r := xs]"

text \<open>
  List subscription \<^verbatim>\<open>xs[i]\<close>: positions \<open>0 .. len - 1\<close> from the front,
  \<open>-1 .. -len\<close> from the back, and \<^verbatim>\<open>IndexError\<close> beyond either end.
\<close>

definition py_index :: "'a list \<Rightarrow> int \<Rightarrow> py_error + 'a" where
  "py_index xs i =
     (if 0 \<le> i \<and> i < int (length xs) then Inr (xs ! nat i)
      else if i < 0 \<and> - int (length xs) \<le> i then Inr (xs ! nat (int (length xs) + i))
      else Inl IndexError)"

text \<open>
  The builtin \<^verbatim>\<open>len(obj)\<close> calls \<^verbatim>\<open>obj.__len__()\<close> and raises \<^verbatim>\<open>ValueError\<close> when
  the method returns a negative number.
\<close>

definition py_len :: "py_error + int \<Rightarrow> py_error + int" where
  "py_len r = (case r of Inl e \<Rightarrow> Inl e | Inr n \<Rightarrow> if n < 0 then Inl ValueError else Inr n)"

text \<open>\<^verbatim>\<open>xs.append(v)\<close> and \<^verbatim>\<open>xs.copy()\<close> (the same as \<^verbatim>\<open>list(xs)\<close>) on a stored list.\<close>

definition list_append :: "'a store \<Rightarrow> ref \<Rightarrow> 'a \<Rightarrow> py_error + 'a store" where
  "list_append st r v =
     (case get_list st r of Inl e \<Rightarrow> Inl e | Inr xs \<Rightarrow> Inr (set_list st r (xs @ [v])))"

definition list_copy :: "'a store \<Rightarrow> ref \<Rightarrow> py_error + (ref \<times> 'a store)" where
  "list_copy st r =
     (case get_list st r of Inl e \<Rightarrow> Inl e | Inr xs \<Rightarrow> Inr (new_list st xs))"

subsection \<open>Element\<close>

text \<open>
  The payload \<^verbatim>\<open>node\<close> is typed \<^verbatim>\<open>Any\<close>; the module itself only ever builds the string
  payload \<^verbatim>\<open>"Root"\<close>.
\<close>

datatype 'a node = Str string | Payload 'a

datatype 'a Element = Element (node: "'a node")

definition Element_eq :: "'a Element \<Rightarrow> 'a Element \<Rightarrow> bool" where
  "Element_eq self other = (node self = node other)"

subsection \<open>StackLSTM\<close>

text \<open>
  A tensor of shape \<open>(1, d)\<close> is a row of \<open>d\<close> numbers. An LSTM state is the pair
  \<open>(h, c)\<close>, each of shape \<open>(lstm_layers, 1, d)\<close>: one row per layer. The recurrent
  module \<^verbatim>\<open>nn.LSTM\<close> is handed to the constructor; it is a parameter here, a function
  from the input sequence and the old state to the output sequence and the new state,
  that may raise (on a shape it does not accept).
\<close>

type_synonym tensor = "real list"

type_synonym lstm_state = "tensor list \<times> tensor list"

type_synonym lstm = "tensor list \<Rightarrow> lstm_state \<Rightarrow> py_error + (tensor list \<times> lstm_state)"

type_synonym 'a frame = "lstm_state \<times> (tensor \<times> 'a Element)"

record 'a heap =
  frames :: "'a frame store"
  ints :: "int store"
  floats :: "real store"
  bools :: "bool store"

definition empty_heap :: "'a heap" where
  "empty_heap = \<lparr>frames = [], ints = [], floats = [], bools = []\<rparr>"

text \<open>
  A \<^verbatim>\<open>StackLSTM\<close> object: \<^verbatim>\<open>self.stack\<close> is \<^verbatim>\<open>None\<close> or a reference to a list of
  frames \<^verbatim>\<open>(state, (embedding, element))\<close>.
\<close>

record StackLSTM =
  empty :: tensor
  lstm :: lstm
  stack :: "ref option"

text \<open>\<^verbatim>\<open>_lstm_output(state) = state[0][-1]\<close>: the hidden row of the last layer.\<close>

definition lstm_output :: "lstm_state \<Rightarrow> py_error + tensor" where
  "lstm_output state = py_index (fst state) (-1)"

text \<open>
  \<^verbatim>\<open>__init__\<close>: with a truthy \<^verbatim>\<open>initial_state\<close> the stack is a new list holding the
  root frame, otherwise it is \<^verbatim>\<open>None\<close>.
\<close>

definition StackLSTM_init ::
  "'a heap \<Rightarrow> lstm \<Rightarrow> lstm_state option \<Rightarrow> tensor \<Rightarrow> py_error + (StackLSTM \<times> 'a heap)" where
  "StackLSTM_init h l initial_state empty_embedding =
     (case initial_state of
        None \<Rightarrow> Inr (\<lparr>empty = empty_embedding, lstm = l, stack = None\<rparr>, h)
      | Some st \<Rightarrow>
          (case lstm_output st of
             Inl e \<Rightarrow> Inl e
           | Inr emb \<Rightarrow>
               (let (r, fr) = new_list (frames h) [(st, (emb, Element (Str ''Root'')))]
                in Inr (\<lparr>empty = empty_embedding, lstm = l, stack = Some r\<rparr>,
                        h\<lparr>frames := fr\<rparr>))))"

text \<open>
  \<^verbatim>\<open>push\<close>: \<^verbatim>\<open>self.stack[-1][0]\<close> is the old top state; the module is called on the
  one-step sequence \<^verbatim>\<open>expression.unsqueeze(0)\<close>; the new frame is appended in place.
\<close>

definition push :: "'a heap \<Rightarrow> StackLSTM \<Rightarrow> tensor \<Rightarrow> 'a Element \<Rightarrow> py_error + 'a heap" where
  "push h self expression element =
     (case stack self of
        None \<Rightarrow> Inl TypeError
      | Some r \<Rightarrow>
          (case get_list (frames h) r of
             Inl e \<Rightarrow> Inl e
           | Inr fs \<Rightarrow>
               (case py_index fs (-1) of
                  Inl e \<Rightarrow> Inl e
                | Inr top_frame \<Rightarrow>
                    (case lstm self [expression] (fst top_frame) of
                       Inl e \<Rightarrow> Inl e
                     | Inr (out, new_top_state) \<Rightarrow>
                         (case lstm_output new_top_state of
                            Inl e \<Rightarrow> Inl e
                          | Inr emb \<Rightarrow>
                              Inr (h\<lparr>frames := set_list (frames h) r
                                     (fs @ [(new_top_state, (emb, element))])\<rparr>))))))"

text \<open>\<^verbatim>\<open>pop\<close>: \<^verbatim>\<open>self.stack.pop()[1]\<close>. There is no check of the depth.\<close>

definition pop :: "'a heap \<Rightarrow> StackLSTM \<Rightarrow> py_error + ((tensor \<times> 'a Element) \<times> 'a heap)" where
  "pop h self =
     (case stack self of
        None \<Rightarrow> Inl AttributeError
      | Some r \<Rightarrow>
          (case get_list (frames h) r of
             Inl e \<Rightarrow> Inl e
           | Inr fs \<Rightarrow>
               (if fs = [] then Inl IndexError
                else Inr (snd (last fs), h\<lparr>frames := set_list (frames h) r (butlast fs)\<rparr>))))"

text \<open>\<^verbatim>\<open>embedding\<close>: the test is on the length of the list itself.\<close>

definition embedding :: "'a heap \<Rightarrow> StackLSTM \<Rightarrow> py_error + (tensor \<times> 'a heap)" where
  "embedding h self =
     (case stack self of
        None \<Rightarrow> Inl TypeError
      | Some r \<Rightarrow>
          (case get_list (frames h) r of
             Inl e \<Rightarrow> Inl e
           | Inr fs \<Rightarrow>
               (if length fs < 1 then Inr (empty self, h)
                else (case py_index fs (-1) of
                        Inl e \<Rightarrow> Inl e
                      | Inr top_frame \<Rightarrow>
                          (case lstm_output (fst top_frame) of
                             Inl e \<Rightarrow> Inl e
                           | Inr emb \<Rightarrow> Inr (emb, h))))))"

text \<open>\<^verbatim>\<open>element_from_top(index) = self.stack[-(index + 1)][1][1]\<close>.\<close>

definition element_from_top :: "'a heap \<Rightarrow> StackLSTM \<Rightarrow> int \<Rightarrow> py_error + 'a Element" where
  "element_from_top h self index =
     (case stack self of
        None \<Rightarrow> Inl TypeError
      | Some r \<Rightarrow>
          (case get_list (frames h) r of
             Inl e \<Rightarrow> Inl e
           | Inr fs \<Rightarrow>
               (case py_index fs (- (index + 1)) of
                  Inl e \<Rightarrow> Inl e
                | Inr f \<Rightarrow> Inr (snd (snd f)))))"

text \<open>\<^verbatim>\<open>__len__ = len(self.stack) - 1\<close>, and the builtin \<^verbatim>\<open>len\<close> applied to the object.\<close>

definition StackLSTM_len :: "'a heap \<Rightarrow> StackLSTM \<Rightarrow> py_error + int" where
  "StackLSTM_len h self =
     (case stack self of
        None \<Rightarrow> Inl TypeError
      | Some r \<Rightarrow>
          (case get_list (frames h) r of
             Inl e \<Rightarrow> Inl e
           | Inr fs \<Rightarrow> Inr (int (length fs) - 1)))"

definition depth :: "'a heap \<Rightarrow> StackLSTM \<Rightarrow> py_error + int" where
  "depth h self = py_len (StackLSTM_len h self)"

text \<open>
  \<^verbatim>\<open>copy\<close>: a new object with the same module and empty embedding, built with
  \<^verbatim>\<open>initial_state = None\<close>, whose stack is then set to \<^verbatim>\<open>list(self.stack)\<close>, a new list
  holding the same frames.
\<close>

definition StackLSTM_copy :: "'a heap \<Rightarrow> StackLSTM \<Rightarrow> py_error + (StackLSTM \<times> 'a heap)" where
  "StackLSTM_copy h self =
     (case StackLSTM_init h (lstm self) None (empty self) of
        Inl e \<Rightarrow> Inl e
      | Inr (other, h1) \<Rightarrow>
          (case stack self of
             None \<Rightarrow> Inl TypeError
           | Some r \<Rightarrow>
               (case list_copy (frames h1) r of
                  Inl e \<Rightarrow> Inl e
                | Inr (r', fr) \<Rightarrow> Inr (other\<lparr>stack := Some r'\<rparr>, h1\<lparr>frames := fr\<rparr>))))"

subsection \<open>ParserState\<close>

text \<open>
  The three stacks are \<^verbatim>\<open>StackLSTM\<close> objects; \<^verbatim>\<open>predicted_actions_idx\<close>,
  \<^verbatim>\<open>action_scores\<close> and \<^verbatim>\<open>is_open_NT\<close> are lists, held by reference. The constructor
  called without a parser returns an object with no attribute at all; only \<^verbatim>\<open>copy\<close> calls
  it so, and sets all nine attributes before it returns the object, so \<^verbatim>\<open>copy\<close> builds
  the record at once.
\<close>

record ParserState =
  buffer_stackrnn :: StackLSTM
  stack_stackrnn :: StackLSTM
  action_stackrnn :: StackLSTM
  predicted_actions_idx :: ref
  action_scores :: ref
  num_open_NT :: int
  is_open_NT :: ref
  found_unsupported :: bool
  neg_prob :: real

text \<open>
  The parser handed to the constructor is the RNNG network, defined outside this module: its
  attributes are a record, and the results of its three calls \<^verbatim>\<open>parser.init_lstm()\<close> are
  arguments (\<open>None\<close> for a falsy result).
\<close>

record parser =
  buff_rnn :: lstm
  stack_rnn :: lstm
  action_rnn :: lstm
  pempty_buffer_emb :: tensor
  empty_stack_emb :: tensor
  empty_action_emb :: tensor

definition ParserState_init ::
  "'a heap \<Rightarrow> parser \<Rightarrow> lstm_state option \<Rightarrow> lstm_state option \<Rightarrow> lstm_state option
     \<Rightarrow> py_error + (ParserState \<times> 'a heap)" where
  "ParserState_init h p init_buffer init_stack init_action =
     (case StackLSTM_init h (buff_rnn p) init_buffer (pempty_buffer_emb p) of
        Inl e \<Rightarrow> Inl e
      | Inr (b, h1) \<Rightarrow>
     (case StackLSTM_init h1 (stack_rnn p) init_stack (empty_stack_emb p) of
        Inl e \<Rightarrow> Inl e
      | Inr (s, h2) \<Rightarrow>
     (case StackLSTM_init h2 (action_rnn p) init_action (empty_action_emb p) of
        Inl e \<Rightarrow> Inl e
      | Inr (a, h3) \<Rightarrow>
         (let (pa, il) = new_list (ints h3) [];
              (sc, fl) = new_list (floats h3) [];
              (op, bl) = new_list (bools h3) []
          in Inr (\<lparr>buffer_stackrnn = b, stack_stackrnn = s, action_stackrnn = a,
                    predicted_actions_idx = pa, action_scores = sc, num_open_NT = 0,
                    is_open_NT = op, found_unsupported = False, neg_prob = 0\<rparr>,
                  h3\<lparr>ints := il, floats := fl, bools := bl\<rparr>)))))"

text \<open>
  \<^verbatim>\<open>finished\<close>: \<^verbatim>\<open>len(self.stack_stackrnn) == 1 and len(self.buffer_stackrnn) == 0\<close>;
  \<^verbatim>\<open>and\<close> does not evaluate its right operand when the left one is false.
\<close>

definition finished :: "'a heap \<Rightarrow> ParserState \<Rightarrow> py_error + bool" where
  "finished h self =
     (case depth h (stack_stackrnn self) of
        Inl e \<Rightarrow> Inl e
      | Inr n \<Rightarrow>
          (if n = 1
           then (case depth h (buffer_stackrnn self) of
                   Inl e \<Rightarrow> Inl e
                 | Inr m \<Rightarrow> Inr (m = 0))
           else Inr False))"

definition ParserState_copy :: "'a heap \<Rightarrow> ParserState \<Rightarrow> py_error + (ParserState \<times> 'a heap)" where
  "ParserState_copy h self =
     (case StackLSTM_copy h (buffer_stackrnn self) of
        Inl e \<Rightarrow> Inl e
      | Inr (b, h1) \<Rightarrow>
     (case StackLSTM_copy h1 (stack_stackrnn self) of
        Inl e \<Rightarrow> Inl e
      | Inr (s, h2) \<Rightarrow>
     (case StackLSTM_copy h2 (action_stackrnn self) of
        Inl e \<Rightarrow> Inl e
      | Inr (a, h3) \<Rightarrow>
     (case list_copy (ints h3) (predicted_actions_idx self) of
        Inl e \<Rightarrow> Inl e
      | Inr (pa, il) \<Rightarrow>
     (case list_copy (floats h3) (action_scores self) of
        Inl e \<Rightarrow> Inl e
      | Inr (sc, fl) \<Rightarrow>
     (case list_copy (bools h3) (is_open_NT self) of
        Inl e \<Rightarrow> Inl e
      | Inr (op, bl) \<Rightarrow>
          Inr (\<lparr>buffer_stackrnn = b, stack_stackrnn = s, action_stackrnn = a,
                 predicted_actions_idx = pa, action_scores = sc,
                 num_open_NT = num_open_NT self, is_open_NT = op,
                 found_unsupported = found_unsupported self, neg_prob = neg_prob self\<rparr>,
               h3\<lparr>ints := il, floats := fl, bools := bl\<rparr>)))))))"

text \<open>\<^verbatim>\<open>__gt__\<close> and \<^verbatim>\<open>__eq__\<close>.\<close>

definition ParserState_gt :: "ParserState \<Rightarrow> ParserState \<Rightarrow> bool" where
  "ParserState_gt self other = (neg_prob self > neg_prob other)"

definition ParserState_eq :: "ParserState \<Rightarrow> ParserState \<Rightarrow> bool" where
  "ParserState_eq self other = (neg_prob self = neg_prob other)"

text \<open>
  Sorting compares with \<^verbatim>\<open>a < b\<close>. The class defines no \<^verbatim>\<open>__lt__\<close>, so Python
  evaluates the reflected \<^verbatim>\<open>b.__gt__(a)\<close>. \<^verbatim>\<open>sorted\<close> is stable; on the short lists
  of a beam it is an insertion sort.
\<close>

definition ParserState_lt :: "ParserState \<Rightarrow> ParserState \<Rightarrow> bool" where
  "ParserState_lt a b = ParserState_gt b a"

fun insert_state :: "ParserState \<Rightarrow> ParserState list \<Rightarrow> ParserState list" where
  "insert_state a [] = [a]"
| "insert_state a (b # bs) = (if ParserState_lt a b then a # b # bs else b # insert_state a bs)"

definition sorted_states :: "ParserState list \<Rightarrow> ParserState list" where
  "sorted_states ps = foldl (\<lambda>acc a. insert_state a acc) [] ps"

subsection \<open>A driver for sequences of stack operations\<close>

text \<open>
  A test of the stack runs pushes and pops in some order. The driver records, after each
  push, what \<^verbatim>\<open>embedding()\<close> returns together with the element pushed, and for each pop
  the pair it returns.
\<close>

datatype 'a stack_op = Push tensor "'a Element" | Pop

datatype 'a event = Pushed tensor "'a Element" | Popped tensor "'a Element"

fun run :: "'a heap \<Rightarrow> StackLSTM \<Rightarrow> 'a stack_op list \<Rightarrow> py_error + ('a event list \<times> 'a heap)" where
  "run h s [] = Inr ([], h)"
| "run h s (Push x el # ops) =
     (case push h s x el of
        Inl e \<Rightarrow> Inl e
      | Inr h1 \<Rightarrow>
          (case embedding h1 s of
             Inl e \<Rightarrow> Inl e
           | Inr (emb, h2) \<Rightarrow>
               (case run h2 s ops of
                  Inl e \<Rightarrow> Inl e
                | Inr (evs, h3) \<Rightarrow> Inr (Pushed emb el # evs, h3))))"
| "run h s (Pop # ops) =
     (case pop h s of
        Inl e \<Rightarrow> Inl e
      | Inr ((emb, el), h1) \<Rightarrow>
          (case run h1 s ops of
             Inl e \<Rightarrow> Inl e
           | Inr (evs, h2) \<Rightarrow> Inr (Popped emb el # evs, h2)))"

text \<open>
  The caller's obligation: every pop happens at depth at least 1. \<open>pops_ok d ops\<close> says
  so for a stack that starts at depth \<open>d\<close>.
\<close>

fun pops_ok :: "int \<Rightarrow> 'a stack_op list \<Rightarrow> bool" where
  "pops_ok d [] = True"
| "pops_ok d (Push x el # ops) = pops_ok (d + 1) ops"
| "pops_ok d (Pop # ops) = (1 \<le> d \<and> pops_ok (d - 1) ops)"

text \<open>
  What a stack promises: each pop returns the pair of the most recent push not yet popped.
  \<open>lifo pending evs\<close> checks a record of events against the pairs still pending, the
  most recent first.
\<close>

fun lifo :: "(tensor \<times> 'a Element) list \<Rightarrow> 'a event list \<Rightarrow> bool" where
  "lifo pending [] = True"
| "lifo pending (Pushed emb el # evs) = lifo ((emb, el) # pending) evs"
| "lifo [] (Popped emb el # evs) = False"
| "lifo (p # pending) (Popped emb el # evs) = (p = (emb, el) \<and> lifo pending evs)"

definition pushes :: "'a stack_op list \<Rightarrow> nat" where
  "pushes ops = length (filter (\<lambda>op. op \<noteq> Pop) ops)"

definition pops :: "'a stack_op list \<Rightarrow> nat" where
  "pops ops = length (filter (\<lambda>op. op = Pop) ops)"

subsection \<open>Composition functions\<close>

text \<open>
  The torch modules the two classes are built from, after the documentation of torch:
  \<^verbatim>\<open>nn.Linear\<close> computes \<open>W x + b\<close> and rejects an input whose width is not
  \<^verbatim>\<open>in_features\<close>; a one-layer \<^verbatim>\<open>nn.LSTM\<close> runs its cell along the sequence and returns
  the hidden row after every step together with the final state; \<^verbatim>\<open>torch.stack\<close> and
  \<^verbatim>\<open>torch.cat\<close> reject an empty list and rows of unequal width.
\<close>

definition sigmoid :: "real \<Rightarrow> real" where
  "sigmoid v = 1 / (1 + exp (- v))"

definition dot :: "real list \<Rightarrow> real list \<Rightarrow> real" where
  "dot u v = sum_list (map2 (*) u v)"

definition matvec :: "real list list \<Rightarrow> real list \<Rightarrow> real list" where
  "matvec W v = map (\<lambda>row. dot row v) W"

record Linear =
  in_features :: nat
  weight :: "real list list"
  bias :: "real list"

definition Linear_forward :: "Linear \<Rightarrow> tensor \<Rightarrow> py_error + tensor" where
  "Linear_forward l v =
     (if length v \<noteq> in_features l then Inl RuntimeError
      else Inr (map2 (+) (matvec (weight l) v) (bias l)))"

text \<open>\<^verbatim>\<open>nn.Sequential(nn.Linear(...), nn.Tanh())\<close>.\<close>

definition linear_tanh :: "Linear \<Rightarrow> tensor \<Rightarrow> py_error + tensor" where
  "linear_tanh l v =
     (case Linear_forward l v of Inl e \<Rightarrow> Inl e | Inr y \<Rightarrow> Inr (map tanh y))"

text \<open>
  \<^verbatim>\<open>nn.LSTM(input_size, hidden_size, num_layers=1)\<close>. The rows of the weights are the
  gates in the order input, forget, cell, output.
\<close>

record LSTM =
  input_size :: nat
  hidden_size :: nat
  weight_ih :: "real list list"
  weight_hh :: "real list list"
  bias_ih :: "real list"
  bias_hh :: "real list"

definition lstm_cell :: "LSTM \<Rightarrow> tensor \<Rightarrow> tensor \<times> tensor \<Rightarrow> tensor \<times> tensor" where
  "lstm_cell m v hc =
     (let n = hidden_size m;
          gates = map2 (+) (map2 (+) (matvec (weight_ih m) v) (bias_ih m))
                           (map2 (+) (matvec (weight_hh m) (fst hc)) (bias_hh m));
          i_gate = map sigmoid (take n gates);
          f_gate = map sigmoid (take n (drop n gates));
          g_gate = map tanh (take n (drop (2 * n) gates));
          o_gate = map sigmoid (take n (drop (3 * n) gates));
          c' = map2 (+) (map2 (*) f_gate (snd hc)) (map2 (*) i_gate g_gate);
          h' = map2 (*) o_gate (map tanh c')
      in (h', c'))"

fun lstm_steps :: "LSTM \<Rightarrow> tensor list \<Rightarrow> tensor \<times> tensor \<Rightarrow> tensor list \<times> (tensor \<times> tensor)" where
  "lstm_steps m [] hc = ([], hc)"
| "lstm_steps m (v # vs) hc =
     (let hc1 = lstm_cell m v hc; (out, hcn) = lstm_steps m vs hc1
      in (fst hc1 # out, hcn))"

definition LSTM_forward :: "LSTM \<Rightarrow> lstm" where
  "LSTM_forward m input state =
     (if length (fst state) = 1 \<and> length (snd state) = 1
         \<and> length (hd (fst state)) = hidden_size m
         \<and> length (hd (snd state)) = hidden_size m
         \<and> list_all (\<lambda>v. length v = input_size m) input
      then (let (out, (hn, cn)) = lstm_steps m input (hd (fst state), hd (snd state))
            in Inr (out, ([hn], [cn])))
      else Inl RuntimeError)"

text \<open>The test \<^verbatim>\<open>nn.LSTM\<close> makes on the initial state, for use in statements.\<close>

definition state_fits :: "LSTM \<Rightarrow> lstm_state \<Rightarrow> bool" where
  "state_fits m st \<longleftrightarrow> length (fst st) = 1 \<and> length (snd st) = 1
         \<and> length (hd (fst st)) = hidden_size m \<and> length (hd (snd st)) = hidden_size m"

definition torch_stack :: "tensor list \<Rightarrow> py_error + tensor list" where
  "torch_stack ts =
     (if ts \<noteq> [] \<and> list_all (\<lambda>t. length t = length (hd ts)) ts then Inr ts
      else Inl RuntimeError)"







record CompositionalNN =
  lstm_dim :: nat
  lstm_fwd :: LSTM
  lstm_rev :: LSTM
  linear_seq :: Linear

text \<open>
  \<^verbatim>\<open>CompositionalNN.forward\<close>. The four initial tensors come from \<^verbatim>\<open>xaviervar\<close>, a
  function of \<^verbatim>\<open>pytext.utils.cuda_utils\<close> that is not among the sources at hand: the two
  state pairs it yields in a call are arguments here. \<^verbatim>\<open>[0][0]\<close> selects the output
  sequence of the LSTM and then its first step.
\<close>

definition CompositionalNN_forward ::
  "CompositionalNN \<Rightarrow> lstm_state \<Rightarrow> lstm_state \<Rightarrow> tensor list \<Rightarrow> py_error + tensor" where
  "CompositionalNN_forward self lstm_hidden_fwd lstm_hidden_rev x =
     (case py_index x (-1) of
        Inl e \<Rightarrow> Inl e
      | Inr nonterminal_element \<Rightarrow>
     (let reversed_rest = butlast x;
          fwd_input = [nonterminal_element] @ rev reversed_rest;
          rev_input = [nonterminal_element] @ reversed_rest
      in
     (case torch_stack fwd_input of
        Inl e \<Rightarrow> Inl e
      | Inr sf \<Rightarrow>
     (case LSTM_forward (lstm_fwd self) sf lstm_hidden_fwd of
        Inl e \<Rightarrow> Inl e
      | Inr rf \<Rightarrow>
     (case py_index (fst rf) 0 of
        Inl e \<Rightarrow> Inl e
      | Inr stacked_fwd \<Rightarrow>
     (case torch_stack rev_input of
        Inl e \<Rightarrow> Inl e
      | Inr sr \<Rightarrow>
     (case LSTM_forward (lstm_rev self) sr lstm_hidden_rev of
        Inl e \<Rightarrow> Inl e
      | Inr rr \<Rightarrow>
     (case py_index (fst rr) 0 of
        Inl e \<Rightarrow> Inl e
      | Inr stacked_rev \<Rightarrow>
          linear_tanh (linear_seq self) (stacked_fwd @ stacked_rev)))))))))"


text \<open>
  The composition as the docstring of \<^verbatim>\<open>forward\<close> and the specification describe it: the
  same two passes, but the \<^emph>\<open>final\<close> hidden rows are concatenated and projected.
\<close>

definition CompositionalNN_spec ::
  "CompositionalNN \<Rightarrow> lstm_state \<Rightarrow> lstm_state \<Rightarrow> tensor list \<Rightarrow> py_error + tensor" where
  "CompositionalNN_spec self lstm_hidden_fwd lstm_hidden_rev x =
     (case py_index x (-1) of
        Inl e \<Rightarrow> Inl e
      | Inr nonterminal_element \<Rightarrow>
     (let reversed_rest = butlast x;
          fwd_input = [nonterminal_element] @ rev reversed_rest;
          rev_input = [nonterminal_element] @ reversed_rest
      in
     (case torch_stack fwd_input of
        Inl e \<Rightarrow> Inl e
      | Inr sf \<Rightarrow>
     (case LSTM_forward (lstm_fwd self) sf lstm_hidden_fwd of
        Inl e \<Rightarrow> Inl e
      | Inr rf \<Rightarrow>
     (case lstm_output (snd rf) of
        Inl e \<Rightarrow> Inl e
      | Inr final_fwd \<Rightarrow>
     (case torch_stack rev_input of
        Inl e \<Rightarrow> Inl e
      | Inr sr \<Rightarrow>
     (case LSTM_forward (lstm_rev self) sr lstm_hidden_rev of
        Inl e \<Rightarrow> Inl e
      | Inr rr \<Rightarrow>
     (case lstm_output (snd rr) of
        Inl e \<Rightarrow> Inl e
      | Inr final_rev \<Rightarrow>
          linear_tanh (linear_seq self) (final_fwd @ final_rev)))))))))"



subsection \<open>Concrete objects\<close>

text \<open>
  A one-dimensional LSTM whose cell gate reads the input and whose other weights are
  zero, a composition module on top of it, and a few stacks and parser states.
\<close>

definition unit_lstm :: LSTM where
  "unit_lstm = \<lparr>input_size = 1, hidden_size = 1,
     weight_ih = [[0], [0], [1], [0]], weight_hh = [[0], [0], [0], [0]],
     bias_ih = [0, 0, 0, 0], bias_hh = [0, 0, 0, 0]\<rparr>"

definition unit_nn :: CompositionalNN where
  "unit_nn = \<lparr>lstm_dim = 1, lstm_fwd = unit_lstm, lstm_rev = unit_lstm,
     linear_seq = \<lparr>in_features = 2, weight = [[1, 1]], bias = [0]\<rparr>\<rparr>"



definition root_frame :: "nat frame" where
  "root_frame = (([[1]], [[0]]), ([1], Element (Str ''Root'')))"

definition zero_frame :: "nat \<Rightarrow> nat frame" where
  "zero_frame n = (([[0]], [[0]]), ([0], Element (Payload n)))"

definition demo_stack :: "ref \<Rightarrow> StackLSTM" where
  "demo_stack r = \<lparr>empty = [0], lstm = LSTM_forward unit_lstm, stack = Some r\<rparr>"

definition fresh_heap :: "nat heap" where
  "fresh_heap = empty_heap\<lparr>frames := [[root_frame]]\<rparr>"

definition demo_heap :: "nat heap" where
  "demo_heap = \<lparr>frames = [[root_frame],
                            [root_frame, zero_frame 1],
                            [root_frame, zero_frame 1, zero_frame 2],
                            [root_frame, zero_frame 1, zero_frame 2, zero_frame 3],
                            [root_frame]],
                  ints = [[4, 2]], floats = [[- 1 / 2, - 1 / 5]], bools = [[True]]\<rparr>"

definition demo_state :: "ref \<Rightarrow> ref \<Rightarrow> real \<Rightarrow> ParserState" where
  "demo_state b s np =
     \<lparr>buffer_stackrnn = demo_stack b, stack_stackrnn = demo_stack s,
      action_stackrnn = demo_stack 4, predicted_actions_idx = 0, action_scores = 0,
      num_open_NT = 1, is_open_NT = 0, found_unsupported = False, neg_prob = np\<rparr>"

definition demo_ops :: "nat stack_op list" where
  "demo_ops = [Push [0] (Element (Payload 7)), Push [0] (Element (Payload 8)), Pop,
               Push [0] (Element (Payload 9))]"

definition demo_state_copy :: ParserState where
  "demo_state_copy =
     \<lparr>buffer_stackrnn = demo_stack 5, stack_stackrnn = demo_stack 6,
      action_stackrnn = demo_stack 7, predicted_actions_idx = 1, action_scores = 1,
      num_open_NT = 1, is_open_NT = 1, found_unsupported = False, neg_prob = 0\<rparr>"

definition demo_heap_copy :: "nat heap" where
  "demo_heap_copy =
     \<lparr>frames = frames demo_heap @ [[root_frame], [root_frame, zero_frame 1], [root_frame]],
      ints = [[4, 2], [4, 2]], floats = [[- 1 / 2, - 1 / 5], [- 1 / 2, - 1 / 5]],
      bools = [[True], [True]]\<rparr>"

section \<open>Properties\<close>

subsection \<open>What one operation does to the store\<close>

lemma push_result:
  assumes "push h s x el = Inr h'"
  shows "\<exists>r fs st emb. stack s = Some r \<and> r < length (frames h) \<and> frames h ! r = fs \<and> fs \<noteq> []
           \<and> lstm_output st = Inr emb
           \<and> h' = h\<lparr>frames := (frames h)[r := fs @ [(st, (emb, el))]]\<rparr>"
  using assms
  by (auto simp: push_def get_list_def py_index_def set_list_def Let_def
           split: option.splits sum.splits if_splits prod.splits)

lemma pop_result:
  assumes "pop h s = Inr (p, h')"
  shows "\<exists>r fs. stack s = Some r \<and> r < length (frames h) \<and> frames h ! r = fs \<and> fs \<noteq> []
           \<and> p = snd (last fs) \<and> h' = h\<lparr>frames := (frames h)[r := butlast fs]\<rparr>"
  using assms
  by (auto simp: pop_def get_list_def set_list_def split: option.splits sum.splits if_splits)

lemma pop_nonempty:
  assumes "stack s = Some r" and "r < length (frames h)" and "frames h ! r \<noteq> []"
  shows "pop h s = Inr (snd (last (frames h ! r)),
                        h\<lparr>frames := (frames h)[r := butlast (frames h ! r)]\<rparr>)"
  using assms by (simp add: pop_def get_list_def set_list_def)

lemma embedding_heap:
  assumes "embedding h s = Inr (emb, h')"
  shows "h' = h"
  using assms
  by (auto simp: embedding_def split: option.splits sum.splits if_splits)

lemma embedding_top:
  assumes "stack s = Some r" and "r < length (frames h)" and "frames h ! r = fs @ [(st, p)]"
  shows "embedding h s = (case lstm_output st of Inl e \<Rightarrow> Inl e | Inr emb \<Rightarrow> Inr (emb, h))"
  using assms
  by (simp add: embedding_def get_list_def py_index_def Let_def)

lemma len_frames:
  assumes "stack s = Some r" and "r < length (frames h)"
  shows "StackLSTM_len h s = Inr (int (length (frames h ! r)) - 1)"
  using assms by (simp add: StackLSTM_len_def get_list_def)

lemma observe_same_list:
  assumes "stack s = Some r" and "stack s' = Some r'"
      and "r < length (frames h)" and "r' < length (frames h')"
      and "frames h' ! r' = frames h ! r"
  shows "StackLSTM_len h' s' = StackLSTM_len h s"
    and "element_from_top h' s' i = element_from_top h s i"
  using assms by (simp_all add: StackLSTM_len_def element_from_top_def get_list_def)

lemma sigmoid_0: "sigmoid 0 = 1 / 2"
  by (simp add: sigmoid_def)

lemma unit_cell:
  "lstm_cell unit_lstm [v] ([h], [c]) = ([tanh (c / 2 + tanh v / 2) / 2], [c / 2 + tanh v / 2])"
  by (simp add: lstm_cell_def unit_lstm_def matvec_def dot_def sigmoid_0 Let_def)

lemma unit_sizes [simp]: "input_size unit_lstm = 1" "hidden_size unit_lstm = 1"
  by (simp_all add: unit_lstm_def)

lemma unit_forward:
  "LSTM_forward unit_lstm [[v]] ([[h]], [[c]]) =
     Inr ([[tanh (c / 2 + tanh v / 2) / 2]],
          ([[tanh (c / 2 + tanh v / 2) / 2]], [[c / 2 + tanh v / 2]]))"
  by (simp add: LSTM_forward_def unit_cell)

subsection \<open>The summary vector of a stack\<close>

text \<open>
  Claim C1: \<^verbatim>\<open>embedding()\<close> returns the summary vector of the top frame at depth at
  least 1 and the designated empty-stack vector at depth 0, and does not change the stack.

  The code does not do the second part. A stack built by the constructor from the state
  \<open>h = [[1]]\<close>, \<open>c = [[0]]\<close> with the empty-stack vector \<open>[0]\<close> has depth 0, and
  \<^verbatim>\<open>embedding()\<close> returns the summary \<open>[1]\<close> of the root frame: the list holds one
  frame, so \<^verbatim>\<open>len(self.stack) < 1\<close> is false. The store is returned as it was.
\<close>

theorem embedding_of_new_stack:
  "StackLSTM_init empty_heap (LSTM_forward unit_lstm) (Some ([[1]], [[0]])) [0]
       = Inr (demo_stack 0, fresh_heap)
   \<and> depth fresh_heap (demo_stack 0) = Inr 0
   \<and> empty (demo_stack 0) = [0]
   \<and> embedding fresh_heap (demo_stack 0) = Inr ([1], fresh_heap)"
  by (simp add: StackLSTM_init_def lstm_output_def py_index_def new_list_def demo_stack_def
      fresh_heap_def root_frame_def empty_heap_def depth_def StackLSTM_len_def py_len_def
      get_list_def embedding_def)

subsection \<open>The end of a parse\<close>

text \<open>
  Claim C2: \<^verbatim>\<open>finished()\<close> is true exactly when the depth of the stack is 1 and the
  depth of the buffer is 0, and false for every other pair of depths.
\<close>

theorem finished_iff_depths:
  assumes "depth h (stack_stackrnn p) = Inr ds"
      and "depth h (buffer_stackrnn p) = Inr db"
  shows "finished h p = Inr (ds = 1 \<and> db = 0)"
  using assms by (simp add: finished_def)

lemma demo_depth:
  "depth demo_heap (demo_stack 0) = Inr 0" "depth demo_heap (demo_stack 1) = Inr 1"
  "depth demo_heap (demo_stack 2) = Inr 2" "depth demo_heap (demo_stack 3) = Inr 3"
  by (simp_all add: depth_def py_len_def StackLSTM_len_def get_list_def demo_heap_def
      demo_stack_def)

theorem finished_iff_depths_witness:
  "depth demo_heap (stack_stackrnn (demo_state 0 1 0)) = Inr 1
   \<and> depth demo_heap (buffer_stackrnn (demo_state 0 1 0)) = Inr 0
   \<and> finished demo_heap (demo_state 0 1 0) = Inr True
   \<and> depth demo_heap (stack_stackrnn (demo_state 0 2 0)) = Inr 2
   \<and> depth demo_heap (buffer_stackrnn (demo_state 0 2 0)) = Inr 0
   \<and> finished demo_heap (demo_state 0 2 0) = Inr False
   \<and> depth demo_heap (stack_stackrnn (demo_state 3 1 0)) = Inr 1
   \<and> depth demo_heap (buffer_stackrnn (demo_state 3 1 0)) = Inr 3
   \<and> finished demo_heap (demo_state 3 1 0) = Inr False"
proof -
  have a: "stack_stackrnn (demo_state b s np) = demo_stack s"
    and b: "buffer_stackrnn (demo_state b s np) = demo_stack b" for b s np
    by (simp_all add: demo_state_def)
  show ?thesis
    using finished_iff_depths [of demo_heap "demo_state 0 1 0" 1 0]
      finished_iff_depths [of demo_heap "demo_state 0 2 0" 2 0]
      finished_iff_depths [of demo_heap "demo_state 3 1 0" 1 3] demo_depth
    by (simp add: a b)
qed

subsection \<open>Popping at depth 0\<close>

text \<open>
  Claim C4: \<^verbatim>\<open>pop()\<close> at depth 0 fails fast and never removes the root frame.

  It does not fail: \<^verbatim>\<open>pop\<close> has no check, and on the new stack above it returns the
  pair of the root frame and leaves the list empty.
\<close>

theorem pop_at_depth_0_counterexample:
  "depth fresh_heap (demo_stack 0) = Inr 0
   \<and> pop fresh_heap (demo_stack 0)
       = Inr (([1], Element (Str ''Root'')), empty_heap\<lparr>frames := [[]]\<rparr>)"
  by (simp add: demo_stack_def fresh_heap_def root_frame_def empty_heap_def depth_def
      StackLSTM_len_def py_len_def get_list_def pop_def set_list_def)

text \<open>
  Claim C4, as the code has it: on a stack that holds the root frame only, \<^verbatim>\<open>pop()\<close>
  raises nothing; it removes that frame and returns its pair. On the list left empty,
  \<^verbatim>\<open>__len__\<close> returns \<open>-1\<close>, \<^verbatim>\<open>len\<close> raises \<^verbatim>\<open>ValueError\<close>, and one more
  \<^verbatim>\<open>pop()\<close> raises \<^verbatim>\<open>IndexError\<close>.
\<close>

theorem pop_at_depth_0:
  assumes "stack s = Some r" and "get_list (frames h) r = Inr [f]"
  shows "depth h s = Inr 0
     \<and> pop h s = Inr (snd f, h\<lparr>frames := set_list (frames h) r []\<rparr>)
     \<and> StackLSTM_len (h\<lparr>frames := set_list (frames h) r []\<rparr>) s = Inr (- 1)
     \<and> depth (h\<lparr>frames := set_list (frames h) r []\<rparr>) s = Inl ValueError
     \<and> pop (h\<lparr>frames := set_list (frames h) r []\<rparr>) s = Inl IndexError"
  using assms
  by (auto simp: depth_def StackLSTM_len_def py_len_def get_list_def pop_def set_list_def
           split: if_splits)

theorem pop_at_depth_0_witness:
  "stack (demo_stack 0) = Some 0
   \<and> get_list (frames fresh_heap) 0 = Inr [root_frame]
   \<and> depth fresh_heap (demo_stack 0) = Inr 0
   \<and> pop fresh_heap (demo_stack 0)
       = Inr (snd root_frame, fresh_heap\<lparr>frames := [[]]\<rparr>)
   \<and> StackLSTM_len (fresh_heap\<lparr>frames := [[]]\<rparr>) (demo_stack 0) = Inr (- 1)
   \<and> depth (fresh_heap\<lparr>frames := [[]]\<rparr>) (demo_stack 0) = Inl ValueError
   \<and> pop (fresh_heap\<lparr>frames := [[]]\<rparr>) (demo_stack 0) = Inl IndexError"
proof -
  have a: "stack (demo_stack 0) = Some 0" by (simp add: demo_stack_def)
  have b: "get_list (frames fresh_heap) 0 = Inr [root_frame]"
    by (simp add: fresh_heap_def get_list_def)
  have c: "set_list (frames fresh_heap) 0 [] = [[]]"
    by (simp add: fresh_heap_def set_list_def)
  show ?thesis
    using pop_at_depth_0 [OF a b] a b by (simp add: c)
qed

subsection \<open>Ranking\<close>

text \<open>
  Claim C6: \<open>a > b\<close> holds exactly when \<open>a.neg_prob > b.neg_prob\<close> and \<open>a == b\<close>
  exactly when \<open>a.neg_prob == b.neg_prob\<close>, whatever the other fields hold; so of two
  candidates with \<open>-0.3\<close> and \<open>-0.7\<close> the one with \<open>-0.7\<close> sorts first.
\<close>

theorem ranking_by_neg_prob:
  "(ParserState_gt a b \<longleftrightarrow> neg_prob a > neg_prob b)
   \<and> (ParserState_eq a b \<longleftrightarrow> neg_prob a = neg_prob b)
   \<and> (neg_prob a = neg_prob a' \<and> neg_prob b = neg_prob b' \<longrightarrow>
        ParserState_gt a b = ParserState_gt a' b' \<and> ParserState_eq a b = ParserState_eq a' b')
   \<and> (neg_prob a = - 3 / 10 \<and> neg_prob b = - 7 / 10 \<longrightarrow>
        ParserState_gt a b \<and> \<not> ParserState_gt b a \<and> \<not> ParserState_eq a b
        \<and> sorted_states [a, b] = [b, a] \<and> sorted_states [b, a] = [b, a])"
  by (simp add: ParserState_gt_def ParserState_eq_def ParserState_lt_def sorted_states_def)

theorem ranking_by_neg_prob_witness:
  "neg_prob (demo_state 0 1 (- 3 / 10)) = neg_prob (demo_state 3 2 (- 3 / 10))
   \<and> neg_prob (demo_state 0 1 (- 7 / 10)) = neg_prob (demo_state 2 2 (- 7 / 10))
   \<and> ParserState_gt (demo_state 0 1 (- 3 / 10)) (demo_state 0 1 (- 7 / 10))
       = ParserState_gt (demo_state 3 2 (- 3 / 10)) (demo_state 2 2 (- 7 / 10))
   \<and> neg_prob (demo_state 0 1 (- 3 / 10)) = - 3 / 10
   \<and> neg_prob (demo_state 0 1 (- 7 / 10)) = - 7 / 10
   \<and> ParserState_gt (demo_state 0 1 (- 3 / 10)) (demo_state 0 1 (- 7 / 10))
   \<and> \<not> ParserState_gt (demo_state 0 1 (- 7 / 10)) (demo_state 0 1 (- 3 / 10))
   \<and> sorted_states [demo_state 0 1 (- 3 / 10), demo_state 0 1 (- 7 / 10)]
       = [demo_state 0 1 (- 7 / 10), demo_state 0 1 (- 3 / 10)]
   \<and> sorted_states [demo_state 0 1 (- 7 / 10), demo_state 0 1 (- 3 / 10)]
       = [demo_state 0 1 (- 7 / 10), demo_state 0 1 (- 3 / 10)]"
proof -
  have n: "neg_prob (demo_state b s np) = np" for b s np
    by (simp add: demo_state_def)
  show ?thesis
    using ranking_by_neg_prob [of "demo_state 0 1 (- 3 / 10)" "demo_state 0 1 (- 7 / 10)"
        "demo_state 3 2 (- 3 / 10)" "demo_state 2 2 (- 7 / 10)"]
    by (auto simp add: n)
qed

subsection \<open>Sequences of pushes and pops\<close>

lemma pushes_simps [simp]:
  "pushes [] = 0" "pushes (Push x el # ops) = Suc (pushes ops)" "pushes (Pop # ops) = pushes ops"
  by (simp_all add: pushes_def)

lemma pops_simps [simp]:
  "pops [] = 0" "pops (Push x el # ops) = pops ops" "pops (Pop # ops) = Suc (pops ops)"
  by (simp_all add: pops_def)

lemma run_invariant:
  assumes "stack s = Some r" and "r < length (frames h)" and "frames h ! r = fs" and "fs \<noteq> []"
      and "pops_ok (int (length fs) - 1) ops"
      and "run h s ops = Inr (evs, h')"
  shows "r < length (frames h') \<and> frames h' ! r \<noteq> [] \<and> hd (frames h' ! r) = hd fs
       \<and> int (length (frames h' ! r)) = int (length fs) + int (pushes ops) - int (pops ops)
       \<and> lifo (rev (map snd (tl fs))) evs"
  using assms(2-)
proof (induction ops arbitrary: h fs evs)
  case Nil
  then show ?case by simp
next
  case (Cons op ops)
  show ?case
  proof (cases op)
    case (Push x el)
    from Cons.prems(5) Push obtain h1 emb h2 evs1 where
      p: "push h s x el = Inr h1" and e: "embedding h1 s = Inr (emb, h2)"
      and r: "run h2 s ops = Inr (evs1, h')" and evs: "evs = Pushed emb el # evs1"
      by (auto split: sum.splits)
    from push_result[OF p] assms(1) Cons.prems(1,2) obtain st emb0 where
      so: "lstm_output st = Inr emb0"
      and h1: "h1 = h\<lparr>frames := (frames h)[r := fs @ [(st, (emb0, el))]]\<rparr>"
      by auto
    have h2: "h2 = h1" using embedding_heap[OF e] .
    have r1: "r < length (frames h1)" and f1: "frames h1 ! r = fs @ [(st, (emb0, el))]"
      using h1 Cons.prems(1) by simp_all
    have "embedding h1 s = Inr (emb0, h1)"
      using embedding_top[OF assms(1) r1 f1] so by simp
    with e have em: "emb = emb0" by simp
    have ok: "pops_ok (int (length (fs @ [(st, (emb0, el))])) - 1) ops"
      using Cons.prems(4) Push by (simp add: algebra_simps)
    have ne: "fs @ [(st, (emb0, el))] \<noteq> []" by simp
    from Cons.IH[OF r1 f1 ne ok r[unfolded h2]]
    have ih: "r < length (frames h') \<and> frames h' ! r \<noteq> []
        \<and> hd (frames h' ! r) = hd (fs @ [(st, (emb0, el))])
        \<and> int (length (frames h' ! r)) = int (length (fs @ [(st, (emb0, el))])) + int (pushes ops) - int (pops ops)
        \<and> lifo (rev (map snd (tl (fs @ [(st, (emb0, el))])))) evs1" .
    with Cons.prems(3) show ?thesis
      by (simp add: Push evs em)
  next
    case Pop
    from Cons.prems(5) Pop obtain emb el h1 evs1 where
      p: "pop h s = Inr ((emb, el), h1)"
      and r: "run h1 s ops = Inr (evs1, h')" and evs: "evs = Popped emb el # evs1"
      by (auto split: sum.splits prod.splits)
    from Cons.prems(4) Pop have len: "2 \<le> length fs" and ok: "pops_ok (int (length fs) - 2) ops"
      by simp_all
    from pop_result[OF p] assms(1) Cons.prems(1,2) have
      pe: "(emb, el) = snd (last fs)" and h1: "h1 = h\<lparr>frames := (frames h)[r := butlast fs]\<rparr>"
      by auto
    have r1: "r < length (frames h1)" and f1: "frames h1 ! r = butlast fs"
      using h1 Cons.prems(1) by simp_all
    have ne: "butlast fs \<noteq> []" using len by (cases fs rule: rev_cases) auto
    have ok': "pops_ok (int (length (butlast fs)) - 1) ops"
      using ok len by (simp add: algebra_simps)
    from Cons.IH[OF r1 f1 ne ok' r]
    have ih: "r < length (frames h') \<and> frames h' ! r \<noteq> []
        \<and> hd (frames h' ! r) = hd (butlast fs)
        \<and> int (length (frames h' ! r)) = int (length (butlast fs)) + int (pushes ops) - int (pops ops)
        \<and> lifo (rev (map snd (tl (butlast fs)))) evs1" .
    obtain fs0 f where fs: "fs = fs0 @ [f]" using Cons.prems(3) by (cases fs rule: rev_cases) auto
    with len have fs0: "fs0 \<noteq> []" by auto
    have tl: "tl (fs0 @ [f]) = tl fs0 @ [f]" using fs0 by simp
    from ih show ?thesis using fs fs0 pe len
      by (simp add: Pop evs tl)
  qed
qed

lemma run_completes:
  assumes "stack s = Some r" and "r < length (frames h)" and "frames h ! r \<noteq> []"
      and "pops_ok (int (length (frames h ! r)) - 1) ops"
      and "\<And>x st. \<exists>out st' emb. lstm s [x] st = Inr (out, st') \<and> lstm_output st' = Inr emb"
  shows "\<exists>evs h'. run h s ops = Inr (evs, h')"
  using assms(2-4)
proof (induction ops arbitrary: h)
  case Nil
  then show ?case by simp
next
  case (Cons op ops)
  show ?case
  proof (cases op)
    case (Push x el)
    obtain fs f where fs: "frames h ! r = fs @ [f]"
      using Cons.prems(2) by (cases "frames h ! r" rule: rev_cases) auto
    from assms(5)[of x "fst f"] obtain out st' emb where
      l: "lstm s [x] (fst f) = Inr (out, st')" and o: "lstm_output st' = Inr emb" by blast
    let ?h1 = "h\<lparr>frames := (frames h)[r := frames h ! r @ [(st', (emb, el))]]\<rparr>"
    have p: "push h s x el = Inr ?h1"
      using assms(1) Cons.prems(1) fs l o
      by (simp add: push_def get_list_def py_index_def set_list_def)
    have r1: "r < length (frames ?h1)" and f1: "frames ?h1 ! r = frames h ! r @ [(st', (emb, el))]"
      using Cons.prems(1) by simp_all
    have e: "embedding ?h1 s = Inr (emb, ?h1)"
      using embedding_top[OF assms(1) r1 f1] o by simp
    have ne: "frames ?h1 ! r \<noteq> []" using f1 by simp
    have ok: "pops_ok (int (length (frames ?h1 ! r)) - 1) ops"
      using Cons.prems(3) Push f1 by (simp add: algebra_simps)
    from Cons.IH[OF r1 ne ok] obtain evs h' where "run ?h1 s ops = Inr (evs, h')" by blast
    then show ?thesis using p e by (simp add: Push)
  next
    case Pop
    from Cons.prems(3) Pop have len: "2 \<le> length (frames h ! r)"
      and ok: "pops_ok (int (length (frames h ! r)) - 2) ops" by simp_all
    let ?h1 = "h\<lparr>frames := (frames h)[r := butlast (frames h ! r)]\<rparr>"
    have p: "pop h s = Inr (snd (last (frames h ! r)), ?h1)"
      using pop_nonempty[OF assms(1) Cons.prems(1,2)] .
    have r1: "r < length (frames ?h1)" and f1: "frames ?h1 ! r = butlast (frames h ! r)"
      using Cons.prems(1) by simp_all
    have ne: "frames ?h1 ! r \<noteq> []"
      using len f1 by (cases "frames h ! r" rule: rev_cases) auto
    have ok': "pops_ok (int (length (frames ?h1 ! r)) - 1) ops"
      using ok len f1 by (simp add: algebra_simps)
    from Cons.IH[OF r1 ne ok'] obtain evs h' where "run ?h1 s ops = Inr (evs, h')" by blast
    then show ?thesis using p by (simp add: Pop split: prod.splits)
  qed
qed

lemma demo_init:
  "StackLSTM_init empty_heap (LSTM_forward unit_lstm) (Some ([[1]], [[0]])) [0]
     = Inr (demo_stack 0, fresh_heap)"
  by (simp add: StackLSTM_init_def lstm_output_def py_index_def new_list_def demo_stack_def
      fresh_heap_def root_frame_def empty_heap_def)

lemma demo_push:
  assumes "r < length (frames h)" and "frames h ! r = fs @ [(([[a]], [[0]]), p)]"
  shows "push h (demo_stack r) [0] (Element (Payload n))
       = Inr (h\<lparr>frames := (frames h)[r := fs @ [(([[a]], [[0]]), p), zero_frame n]]\<rparr>)"
  using assms
  by (simp add: push_def demo_stack_def get_list_def py_index_def unit_forward lstm_output_def
      set_list_def zero_frame_def)

lemma demo_embedding:
  assumes "r < length (frames h)" and "frames h ! r = fs @ [(([[a]], c), p)]"
  shows "embedding h (demo_stack r) = Inr ([a], h)"
  using assms
  by (simp add: embedding_def demo_stack_def get_list_def py_index_def lstm_output_def)

lemma demo_pop:
  assumes "r < length (frames h)" and "frames h ! r = fs @ [f]"
  shows "pop h (demo_stack r) = Inr (snd f, h\<lparr>frames := (frames h)[r := fs]\<rparr>)"
  using assms
  by (simp add: pop_def demo_stack_def get_list_def set_list_def)

lemma demo_run:
  "run fresh_heap (demo_stack 0) demo_ops
   = Inr ([Pushed [0] (Element (Payload 7)), Pushed [0] (Element (Payload 8)),
           Popped [0] (Element (Payload 8)), Pushed [0] (Element (Payload 9))],
          fresh_heap\<lparr>frames := [[root_frame, zero_frame 7, zero_frame 9]]\<rparr>)"
proof -
  let ?h1 = "fresh_heap\<lparr>frames := [[root_frame, zero_frame 7]]\<rparr>"
  let ?h2 = "fresh_heap\<lparr>frames := [[root_frame, zero_frame 7, zero_frame 8]]\<rparr>"
  let ?h3 = "fresh_heap\<lparr>frames := [[root_frame, zero_frame 7, zero_frame 9]]\<rparr>"
  have p1: "push fresh_heap (demo_stack 0) [0] (Element (Payload 7)) = Inr ?h1"
    using demo_push[of 0 fresh_heap "[]" 1 "([1], Element (Str ''Root''))" 7]
    by (simp add: fresh_heap_def root_frame_def)
  have e1: "embedding ?h1 (demo_stack 0) = Inr ([0], ?h1)"
    using demo_embedding[of 0 ?h1 "[root_frame]" 0 "[[0]]" "([0], Element (Payload 7))"]
    by (simp add: zero_frame_def)
  have p2: "push ?h1 (demo_stack 0) [0] (Element (Payload 8)) = Inr ?h2"
    using demo_push[of 0 ?h1 "[root_frame]" 0 "([0], Element (Payload 7))" 8]
    by (simp add: zero_frame_def)
  have e2: "embedding ?h2 (demo_stack 0) = Inr ([0], ?h2)"
    using demo_embedding[of 0 ?h2 "[root_frame, zero_frame 7]" 0 "[[0]]" "([0], Element (Payload 8))"]
    by (simp add: zero_frame_def)
  have q: "pop ?h2 (demo_stack 0) = Inr (([0], Element (Payload 8)), ?h1)"
    using demo_pop[of 0 ?h2 "[root_frame, zero_frame 7]" "zero_frame 8"]
    by (simp add: zero_frame_def)
  have p3: "push ?h1 (demo_stack 0) [0] (Element (Payload 9)) = Inr ?h3"
    using demo_push[of 0 ?h1 "[root_frame]" 0 "([0], Element (Payload 7))" 9]
    by (simp add: zero_frame_def)
  have e3: "embedding ?h3 (demo_stack 0) = Inr ([0], ?h3)"
    using demo_embedding[of 0 ?h3 "[root_frame, zero_frame 7]" 0 "[[0]]" "([0], Element (Payload 9))"]
    by (simp add: zero_frame_def)
  show ?thesis using p1 e1 p2 e2 q p3 e3 by (simp add: demo_ops_def)
qed

text \<open>
  Claim C3: over a sequence of pushes and pops in which every pop happens at depth at
  least 1, the depth is the number of pushes minus the number of pops, the root frame is
  not counted and is never removed, and each pop removes and returns the pair of the most
  recent push not yet popped.

  The stack is the one the constructor builds. The root frame is still the first frame of
  the list, the list holds one frame more than the depth, and \<^verbatim>\<open>element_from_top\<close> at
  the offset of the depth finds the root. Every prefix of the sequence meets the same
  hypotheses, so all this holds after each operation. By \<open>run_completes\<close> no pop of
  such a sequence raises: a run can fail only where the LSTM does.
\<close>

theorem push_pop_depth_and_order:
  assumes "StackLSTM_init h0 l (Some st0) e0 = Inr (s, h)"
      and "pops_ok 0 ops"
      and "run h s ops = Inr (evs, h')"
  shows "StackLSTM_len h' s = Inr (int (pushes ops) - int (pops ops))
       \<and> depth h' s = Inr (int (pushes ops) - int (pops ops))
       \<and> (\<exists>r emb fs. stack s = Some r
             \<and> get_list (frames h') r = Inr ((st0, (emb, Element (Str ''Root''))) # fs)
             \<and> int (length fs) = int (pushes ops) - int (pops ops))
       \<and> element_from_top h' s (int (pushes ops) - int (pops ops)) = Inr (Element (Str ''Root''))
       \<and> lifo [] evs"
proof -
  from assms(1) obtain emb0 where
    s: "stack s = Some (length (frames h0))"
    and h: "h = h0\<lparr>frames := frames h0 @ [[(st0, (emb0, Element (Str ''Root'')))]]\<rparr>"
    by (auto simp: StackLSTM_init_def new_list_def split: sum.splits)
  let ?r = "length (frames h0)"
  let ?root = "(st0, (emb0, Element (Str ''Root'')))"
  have r: "?r < length (frames h)" and f: "frames h ! ?r = [?root]" using h by simp_all
  have ok: "pops_ok (int (length [?root]) - 1) ops" using assms(2) by simp
  from run_invariant[OF s r f _ ok assms(3)]
  have inv: "?r < length (frames h')" "frames h' ! ?r \<noteq> []" "hd (frames h' ! ?r) = ?root"
    "int (length (frames h' ! ?r)) = 1 + int (pushes ops) - int (pops ops)"
    "lifo [] evs" by simp_all
  obtain fs where fs: "frames h' ! ?r = ?root # fs"
    using inv(2,3) by (cases "frames h' ! ?r") auto
  have n: "int (length fs) = int (pushes ops) - int (pops ops)" using inv(4) fs by simp
  have 1: "StackLSTM_len h' s = Inr (int (pushes ops) - int (pops ops))"
    using len_frames[OF s inv(1)] fs n by simp
  have 2: "depth h' s = Inr (int (pushes ops) - int (pops ops))"
    using 1 n by (simp add: depth_def py_len_def)
  have 3: "get_list (frames h') ?r = Inr (?root # fs)"
    using inv(1) fs by (simp add: get_list_def)
  have 4: "element_from_top h' s (int (pushes ops) - int (pops ops)) = Inr (Element (Str ''Root''))"
    using s 3 n by (simp add: element_from_top_def py_index_def)
  show ?thesis using 1 2 3 4 inv(5) s n by blast
qed

theorem push_pop_depth_and_order_witness:
  "StackLSTM_init empty_heap (LSTM_forward unit_lstm) (Some ([[1]], [[0]])) [0]
     = Inr (demo_stack 0, fresh_heap)
   \<and> pops_ok 0 demo_ops
   \<and> run fresh_heap (demo_stack 0) demo_ops
       = Inr ([Pushed [0] (Element (Payload 7)), Pushed [0] (Element (Payload 8)),
               Popped [0] (Element (Payload 8)), Pushed [0] (Element (Payload 9))],
              fresh_heap\<lparr>frames := [[root_frame, zero_frame 7, zero_frame 9]]\<rparr>)
   \<and> StackLSTM_len (fresh_heap\<lparr>frames := [[root_frame, zero_frame 7, zero_frame 9]]\<rparr>)
         (demo_stack 0) = Inr 2
   \<and> depth (fresh_heap\<lparr>frames := [[root_frame, zero_frame 7, zero_frame 9]]\<rparr>)
         (demo_stack 0) = Inr 2
   \<and> element_from_top (fresh_heap\<lparr>frames := [[root_frame, zero_frame 7, zero_frame 9]]\<rparr>)
         (demo_stack 0) 2 = Inr (Element (Str ''Root''))
   \<and> lifo [] [Pushed [0] (Element (Payload (7::nat))), Pushed [0] (Element (Payload 8)),
               Popped [0] (Element (Payload 8)), Pushed [0] (Element (Payload 9))]"
proof -
  have ok: "pops_ok 0 demo_ops" by (simp add: demo_ops_def)
  have n: "int (pushes demo_ops) - int (pops demo_ops) = 2" by (simp add: demo_ops_def)
  show ?thesis
    using push_pop_depth_and_order [OF demo_init ok demo_run] demo_init ok demo_run
    unfolding n by blast
qed

subsection \<open>Copies\<close>

lemma run_frame:
  assumes "stack s = Some r" and "run h s ops = Inr (evs, h')"
  shows "length (frames h') = length (frames h)
       \<and> (\<forall>r'. r' \<noteq> r \<longrightarrow> frames h' ! r' = frames h ! r')
       \<and> ints h' = ints h \<and> floats h' = floats h \<and> bools h' = bools h"
  using assms(2)
proof (induction ops arbitrary: h evs)
  case Nil
  then show ?case by simp
next
  case (Cons op ops)
  show ?case
  proof (cases op)
    case (Push x el)
    from Cons.prems Push obtain h1 emb h2 evs1 where
      p: "push h s x el = Inr h1" and e: "embedding h1 s = Inr (emb, h2)"
      and r: "run h2 s ops = Inr (evs1, h')"
      by (auto split: sum.splits)
    from push_result[OF p] assms(1) obtain fs' where
      h1: "h1 = h\<lparr>frames := (frames h)[r := fs']\<rparr>" by auto
    have h2: "h2 = h1" using embedding_heap[OF e] .
    from Cons.IH[OF r] show ?thesis by (simp add: h2 h1)
  next
    case Pop
    from Cons.prems Pop obtain emb el h1 evs1 where
      p: "pop h s = Inr ((emb, el), h1)" and r: "run h1 s ops = Inr (evs1, h')"
      by (auto split: sum.splits prod.splits)
    from pop_result[OF p] assms(1) obtain fs' where
      h1: "h1 = h\<lparr>frames := (frames h)[r := fs']\<rparr>" by auto
    from Cons.IH[OF r] show ?thesis by (simp add: h1)
  qed
qed

lemma StackLSTM_copy_result:
  assumes "StackLSTM_copy h s = Inr (c, h1)"
  shows "\<exists>r. stack s = Some r \<and> r < length (frames h)
           \<and> c = \<lparr>empty = empty s, lstm = lstm s, stack = Some (length (frames h))\<rparr>
           \<and> h1 = h\<lparr>frames := frames h @ [frames h ! r]\<rparr>"
  using assms
  by (auto simp: StackLSTM_copy_def StackLSTM_init_def list_copy_def get_list_def new_list_def
           split: option.splits sum.splits if_splits prod.splits)

lemma copy_then_run_copy:
  assumes "StackLSTM_copy h s = Inr (c, h1)" and "run h1 c ops = Inr (evs, h2)"
  shows "StackLSTM_len h2 s = StackLSTM_len h s \<and> (\<forall>i. element_from_top h2 s i = element_from_top h s i)"
proof -
  from StackLSTM_copy_result[OF assms(1)] obtain r where
    s: "stack s = Some r" and r: "r < length (frames h)"
    and c: "stack c = Some (length (frames h))"
    and h1: "h1 = h\<lparr>frames := frames h @ [frames h ! r]\<rparr>" by auto
  from run_frame[OF c assms(2)] have
    len: "length (frames h2) = length (frames h1)"
    and same: "\<forall>r'. r' \<noteq> length (frames h) \<longrightarrow> frames h2 ! r' = frames h1 ! r'" by simp_all
  have r2: "r < length (frames h2)" using len h1 r by simp
  have "frames h2 ! r = frames h1 ! r" using same r by simp
  also have "\<dots> = frames h ! r" using h1 r by (simp add: nth_append)
  finally have eq: "frames h2 ! r = frames h ! r" .
  show ?thesis using observe_same_list[OF s s r r2 eq] by simp
qed

lemma copy_then_run_original:
  assumes "StackLSTM_copy h s = Inr (c, h1)" and "run h1 s ops = Inr (evs, h2)"
  shows "StackLSTM_len h2 c = StackLSTM_len h1 c \<and> (\<forall>i. element_from_top h2 c i = element_from_top h1 c i)"
proof -
  from StackLSTM_copy_result[OF assms(1)] obtain r where
    s: "stack s = Some r" and r: "r < length (frames h)"
    and c: "stack c = Some (length (frames h))"
    and h1: "h1 = h\<lparr>frames := frames h @ [frames h ! r]\<rparr>" by auto
  from run_frame[OF s assms(2)] have
    len: "length (frames h2) = length (frames h1)"
    and same: "\<forall>r'. r' \<noteq> r \<longrightarrow> frames h2 ! r' = frames h1 ! r'" by simp_all
  have c1: "length (frames h) < length (frames h1)" using h1 by simp
  have c2: "length (frames h) < length (frames h2)" using len c1 by simp
  have eq: "frames h2 ! length (frames h) = frames h1 ! length (frames h)" using same r by simp
  show ?thesis using observe_same_list[OF c c c1 c2 eq] by simp
qed

lemma StackLSTM_copy_frame:
  assumes "StackLSTM_copy h s = Inr (c, h1)"
  shows "ints h1 = ints h \<and> floats h1 = floats h \<and> bools h1 = bools h"
  using StackLSTM_copy_result[OF assms] by auto

lemma list_copy_result:
  assumes "list_copy st r = Inr (r', st')"
  shows "r < length st \<and> r' = length st \<and> st' = st @ [st ! r]"
  using assms by (auto simp: list_copy_def get_list_def new_list_def split: if_splits)

lemma ParserState_copy_result:
  assumes "ParserState_copy h p = Inr (q, h1)"
  shows "predicted_actions_idx p < length (ints h) \<and> predicted_actions_idx q = length (ints h)
       \<and> ints h1 = ints h @ [ints h ! predicted_actions_idx p]
       \<and> action_scores p < length (floats h) \<and> action_scores q = length (floats h)
       \<and> floats h1 = floats h @ [floats h ! action_scores p]
       \<and> is_open_NT p < length (bools h) \<and> is_open_NT q = length (bools h)
       \<and> bools h1 = bools h @ [bools h ! is_open_NT p]
       \<and> num_open_NT q = num_open_NT p \<and> neg_prob q = neg_prob p
       \<and> found_unsupported q = found_unsupported p"
proof -
  from assms obtain b hb s hs a ha pa il sc fl op bl where
    1: "StackLSTM_copy h (buffer_stackrnn p) = Inr (b, hb)" and
    2: "StackLSTM_copy hb (stack_stackrnn p) = Inr (s, hs)" and
    3: "StackLSTM_copy hs (action_stackrnn p) = Inr (a, ha)" and
    4: "list_copy (ints ha) (predicted_actions_idx p) = Inr (pa, il)" and
    5: "list_copy (floats ha) (action_scores p) = Inr (sc, fl)" and
    6: "list_copy (bools ha) (is_open_NT p) = Inr (op, bl)" and
    q: "q = \<lparr>buffer_stackrnn = b, stack_stackrnn = s, action_stackrnn = a,
                 predicted_actions_idx = pa, action_scores = sc,
                 num_open_NT = num_open_NT p, is_open_NT = op,
                 found_unsupported = found_unsupported p, neg_prob = neg_prob p\<rparr>" and
    h1: "h1 = ha\<lparr>ints := il, floats := fl, bools := bl\<rparr>"
    unfolding ParserState_copy_def by (auto split: sum.splits prod.splits)
  have fr: "ints ha = ints h" "floats ha = floats h" "bools ha = bools h"
    using StackLSTM_copy_frame[OF 1] StackLSTM_copy_frame[OF 2] StackLSTM_copy_frame[OF 3]
    by simp_all
  show ?thesis
    using list_copy_result[OF 4] list_copy_result[OF 5] list_copy_result[OF 6]
    by (simp add: q h1 fr)
qed

lemma demo_copy:
  "StackLSTM_copy fresh_heap (demo_stack 0)
     = Inr (demo_stack 1, fresh_heap\<lparr>frames := [[root_frame], [root_frame]]\<rparr>)"
  by (simp add: StackLSTM_copy_def StackLSTM_init_def demo_stack_def list_copy_def get_list_def
      new_list_def fresh_heap_def)

lemma demo_run_copy:
  "run (fresh_heap\<lparr>frames := [[root_frame], [root_frame]]\<rparr>) (demo_stack 1)
     [Push [0] (Element (Payload 7)), Pop, Pop]
   = Inr ([Pushed [0] (Element (Payload 7)), Popped [0] (Element (Payload 7)),
           Popped [1] (Element (Str ''Root''))],
          fresh_heap\<lparr>frames := [[root_frame], []]\<rparr>)"
proof -
  let ?h0 = "fresh_heap\<lparr>frames := [[root_frame], [root_frame]]\<rparr>"
  let ?h1 = "fresh_heap\<lparr>frames := [[root_frame], [root_frame, zero_frame 7]]\<rparr>"
  let ?h2 = "fresh_heap\<lparr>frames := [[root_frame], []]\<rparr>"
  have p1: "push ?h0 (demo_stack 1) [0] (Element (Payload 7)) = Inr ?h1"
    using demo_push[of 1 ?h0 "[]" 1 "([1], Element (Str ''Root''))" 7]
    by (simp add: root_frame_def)
  have e1: "embedding ?h1 (demo_stack 1) = Inr ([0], ?h1)"
    using demo_embedding[of 1 ?h1 "[root_frame]" 0 "[[0]]" "([0], Element (Payload 7))"]
    by (simp add: zero_frame_def)
  have q1: "pop ?h1 (demo_stack 1) = Inr (([0], Element (Payload 7)), ?h0)"
    using demo_pop[of 1 ?h1 "[root_frame]" "zero_frame 7"]
    by (simp add: zero_frame_def)
  have q2: "pop ?h0 (demo_stack 1) = Inr (([1], Element (Str ''Root'')), ?h2)"
    using demo_pop[of 1 ?h0 "[]" "root_frame"]
    by (simp add: root_frame_def)
  show ?thesis using p1 e1 q1 q2 by simp
qed

lemma demo_run_original:
  "run (fresh_heap\<lparr>frames := [[root_frame], [root_frame]]\<rparr>) (demo_stack 0)
     [Push [0] (Element (Payload 8))]
   = Inr ([Pushed [0] (Element (Payload 8))],
          fresh_heap\<lparr>frames := [[root_frame, zero_frame 8], [root_frame]]\<rparr>)"
proof -
  let ?h0 = "fresh_heap\<lparr>frames := [[root_frame], [root_frame]]\<rparr>"
  let ?h1 = "fresh_heap\<lparr>frames := [[root_frame, zero_frame 8], [root_frame]]\<rparr>"
  have p1: "push ?h0 (demo_stack 0) [0] (Element (Payload 8)) = Inr ?h1"
    using demo_push[of 0 ?h0 "[]" 1 "([1], Element (Str ''Root''))" 8]
    by (simp add: root_frame_def)
  have e1: "embedding ?h1 (demo_stack 0) = Inr ([0], ?h1)"
    using demo_embedding[of 0 ?h1 "[root_frame]" 0 "[[0]]" "([0], Element (Payload 8))"]
    by (simp add: zero_frame_def)
  show ?thesis using p1 e1 by simp
qed

lemma demo_stack_copy:
  assumes "r < length (frames h)" and "n = length (frames h)"
  shows "StackLSTM_copy h (demo_stack r)
       = Inr (demo_stack n, h\<lparr>frames := frames h @ [frames h ! r]\<rparr>)"
  using assms
  by (simp add: StackLSTM_copy_def StackLSTM_init_def demo_stack_def list_copy_def get_list_def
      new_list_def)

lemma demo_parser_copy:
  "ParserState_copy demo_heap (demo_state 0 1 0) = Inr (demo_state_copy, demo_heap_copy)"
proof -
  let ?h1 = "demo_heap\<lparr>frames := frames demo_heap @ [[root_frame]]\<rparr>"
  let ?h2 = "demo_heap\<lparr>frames := frames demo_heap @ [[root_frame], [root_frame, zero_frame 1]]\<rparr>"
  let ?h3 = "demo_heap\<lparr>frames := frames demo_heap @ [[root_frame], [root_frame, zero_frame 1], [root_frame]]\<rparr>"
  have 1: "StackLSTM_copy demo_heap (demo_stack 0) = Inr (demo_stack 5, ?h1)"
    using demo_stack_copy[of 0 demo_heap 5] by (simp add: demo_heap_def)
  have 2: "StackLSTM_copy ?h1 (demo_stack 1) = Inr (demo_stack 6, ?h2)"
    using demo_stack_copy[of 1 ?h1 6] by (simp add: demo_heap_def)
  have 3: "StackLSTM_copy ?h2 (demo_stack 4) = Inr (demo_stack 7, ?h3)"
    using demo_stack_copy[of 4 ?h2 7] by (simp add: demo_heap_def)
  show ?thesis
    using 1 2 3
    by (simp add: ParserState_copy_def demo_state_def demo_state_copy_def demo_heap_copy_def
        list_copy_def get_list_def new_list_def demo_heap_def)
qed

text \<open>
  Claim C5: pushes and pops on the copy of a stack leave the depth and the top element of
  the original as they were, and the other way round; appending to
  \<^verbatim>\<open>predicted_actions_idx\<close> of the copy of a parser state changes neither the sequence
  of the original nor its length.

  The sequence of operations is arbitrary: it may even pop the root frame. The element is
  unchanged at every offset, not only at the top.
\<close>

theorem copies_are_independent:
  "(StackLSTM_copy h s = Inr (c, h1) \<and> run h1 c ops = Inr (evs, h2) \<longrightarrow>
       StackLSTM_len h2 s = StackLSTM_len h s
       \<and> (\<forall>i. element_from_top h2 s i = element_from_top h s i))
 \<and> (StackLSTM_copy h s = Inr (c, h1) \<and> run h1 s ops' = Inr (evs', h2') \<longrightarrow>
       StackLSTM_len h2' c = StackLSTM_len h1 c
       \<and> (\<forall>i. element_from_top h2' c i = element_from_top h1 c i))
 \<and> (ParserState_copy g p = Inr (q, gq) \<and> list_append (ints gq) (predicted_actions_idx q) v = Inr il \<longrightarrow>
       get_list il (predicted_actions_idx p) = get_list (ints g) (predicted_actions_idx p))"
proof (intro conjI impI)
  assume a: "ParserState_copy g p = Inr (q, gq) \<and> list_append (ints gq) (predicted_actions_idx q) v = Inr il"
  from ParserState_copy_result[of g p q gq] a have
    p: "predicted_actions_idx p < length (ints g)" and q: "predicted_actions_idx q = length (ints g)"
    and i: "ints gq = ints g @ [ints g ! predicted_actions_idx p]" by simp_all
  from a have "il = (ints gq)[length (ints g) := ints gq ! length (ints g) @ [v]]"
    by (auto simp: list_append_def get_list_def set_list_def q split: if_splits)
  then show "get_list il (predicted_actions_idx p) = get_list (ints g) (predicted_actions_idx p)"
    using p by (simp add: i get_list_def nth_append)
qed (use copy_then_run_copy copy_then_run_original in blast)+

theorem copies_are_independent_witness:
  "StackLSTM_copy fresh_heap (demo_stack 0)
     = Inr (demo_stack 1, fresh_heap\<lparr>frames := [[root_frame], [root_frame]]\<rparr>)
   \<and> run (fresh_heap\<lparr>frames := [[root_frame], [root_frame]]\<rparr>) (demo_stack 1)
         [Push [0] (Element (Payload 7)), Pop, Pop]
       = Inr ([Pushed [0] (Element (Payload 7)), Popped [0] (Element (Payload 7)),
               Popped [1] (Element (Str ''Root''))],
              fresh_heap\<lparr>frames := [[root_frame], []]\<rparr>)
   \<and> StackLSTM_len (fresh_heap\<lparr>frames := [[root_frame], []]\<rparr>) (demo_stack 0)
       = StackLSTM_len fresh_heap (demo_stack 0)
   \<and> element_from_top (fresh_heap\<lparr>frames := [[root_frame], []]\<rparr>) (demo_stack 0) 0
       = element_from_top fresh_heap (demo_stack 0) 0
   \<and> run (fresh_heap\<lparr>frames := [[root_frame], [root_frame]]\<rparr>) (demo_stack 0)
         [Push [0] (Element (Payload 8))]
       = Inr ([Pushed [0] (Element (Payload 8))],
              fresh_heap\<lparr>frames := [[root_frame, zero_frame 8], [root_frame]]\<rparr>)
   \<and> StackLSTM_len (fresh_heap\<lparr>frames := [[root_frame, zero_frame 8], [root_frame]]\<rparr>)
         (demo_stack 1)
       = StackLSTM_len (fresh_heap\<lparr>frames := [[root_frame], [root_frame]]\<rparr>) (demo_stack 1)
   \<and> element_from_top (fresh_heap\<lparr>frames := [[root_frame, zero_frame 8], [root_frame]]\<rparr>)
         (demo_stack 1) 0
       = element_from_top (fresh_heap\<lparr>frames := [[root_frame], [root_frame]]\<rparr>)
           (demo_stack 1) 0
   \<and> ParserState_copy demo_heap (demo_state 0 1 0) = Inr (demo_state_copy, demo_heap_copy)
   \<and> list_append (ints demo_heap_copy) (predicted_actions_idx demo_state_copy) 9
       = Inr [[4, 2], [4, 2, 9]]
   \<and> get_list [[4, 2], [4, 2, 9]] (predicted_actions_idx (demo_state 0 1 0))
       = get_list (ints demo_heap) (predicted_actions_idx (demo_state 0 1 0))"
proof -
  have a: "list_append (ints demo_heap_copy) (predicted_actions_idx demo_state_copy) 9
       = Inr [[4, 2], [4, 2, 9]]"
    by (simp add: list_append_def get_list_def set_list_def demo_heap_copy_def
        demo_state_copy_def)
  show ?thesis
    using copies_are_independent [where h = fresh_heap and s = "demo_stack 0" and c = "demo_stack 1"
        and ?h1.0 = "fresh_heap\<lparr>frames := [[root_frame], [root_frame]]\<rparr>"
        and ops = "[Push [0] (Element (Payload 7)), Pop, Pop]"
        and evs = "[Pushed [0] (Element (Payload 7)), Popped [0] (Element (Payload 7)),
          Popped [1] (Element (Str ''Root''))]"
        and ?h2.0 = "fresh_heap\<lparr>frames := [[root_frame], []]\<rparr>"
        and ops' = "[Push [0] (Element (Payload 8))]"
        and evs' = "[Pushed [0] (Element (Payload 8))]"
        and h2' = "fresh_heap\<lparr>frames := [[root_frame, zero_frame 8], [root_frame]]\<rparr>"
        and g = demo_heap and p = "demo_state 0 1 0" and q = demo_state_copy
        and gq = demo_heap_copy and v = 9 and il = "[[4, 2], [4, 2, 9]]"]
      demo_copy demo_run_copy demo_run_original demo_parser_copy a
    by blast
qed

text \<open>
  Claim C10: right after \<^verbatim>\<open>copy()\<close> the copy of a stack has the depth of the original
  and the same element at every offset, the root included, and it holds the same LSTM and
  the same empty-stack vector; the copy of a parser state has equal
  \<^verbatim>\<open>predicted_actions_idx\<close>, \<^verbatim>\<open>action_scores\<close>, \<^verbatim>\<open>num_open_NT\<close>, \<^verbatim>\<open>is_open_NT\<close>,
  \<^verbatim>\<open>neg_prob\<close> and \<^verbatim>\<open>found_unsupported\<close>.

  The results of \<^verbatim>\<open>element_from_top\<close> agree at every offset, also where both raise; on
  equal elements \<open>Element_eq\<close> holds.
\<close>

theorem copy_preserves_state:
  "(StackLSTM_copy h s = Inr (c, h1) \<longrightarrow>
       StackLSTM_len h1 c = StackLSTM_len h s
       \<and> (\<forall>i. element_from_top h1 c i = element_from_top h s i)
       \<and> (\<forall>i e e'. element_from_top h s i = Inr e \<and> element_from_top h1 c i = Inr e'
              \<longrightarrow> Element_eq e' e)
       \<and> lstm c = lstm s \<and> empty c = empty s)
 \<and> (ParserState_copy g p = Inr (q, gq) \<longrightarrow>
       get_list (ints gq) (predicted_actions_idx q) = get_list (ints g) (predicted_actions_idx p)
       \<and> get_list (floats gq) (action_scores q) = get_list (floats g) (action_scores p)
       \<and> get_list (bools gq) (is_open_NT q) = get_list (bools g) (is_open_NT p)
       \<and> num_open_NT q = num_open_NT p \<and> neg_prob q = neg_prob p
       \<and> found_unsupported q = found_unsupported p)"
proof (intro conjI impI)
  assume a: "StackLSTM_copy h s = Inr (c, h1)"
  from StackLSTM_copy_result[OF a] obtain r where
    s: "stack s = Some r" and r: "r < length (frames h)"
    and c: "c = \<lparr>empty = empty s, lstm = lstm s, stack = Some (length (frames h))\<rparr>"
    and h1: "h1 = h\<lparr>frames := frames h @ [frames h ! r]\<rparr>" by auto
  have cs: "stack c = Some (length (frames h))" using c by simp
  have c1: "length (frames h) < length (frames h1)" using h1 by simp
  have eq: "frames h1 ! length (frames h) = frames h ! r" using h1 by simp
  show "StackLSTM_len h1 c = StackLSTM_len h s"
    using observe_same_list(1)[OF s cs r c1 eq] .
  show all: "\<forall>i. element_from_top h1 c i = element_from_top h s i"
    using observe_same_list(2)[OF s cs r c1 eq] by simp
  show "\<forall>i e e'. element_from_top h s i = Inr e \<and> element_from_top h1 c i = Inr e'
          \<longrightarrow> Element_eq e' e"
    using all by (auto simp add: Element_eq_def)
  show "lstm c = lstm s" "empty c = empty s" using c by simp_all
next
  assume a: "ParserState_copy g p = Inr (q, gq)"
  note r = ParserState_copy_result[OF a]
  show "get_list (ints gq) (predicted_actions_idx q) = get_list (ints g) (predicted_actions_idx p)"
    using r by (simp add: get_list_def)
  show "get_list (floats gq) (action_scores q) = get_list (floats g) (action_scores p)"
    using r by (simp add: get_list_def)
  show "get_list (bools gq) (is_open_NT q) = get_list (bools g) (is_open_NT p)"
    using r by (simp add: get_list_def)
  show "num_open_NT q = num_open_NT p" "neg_prob q = neg_prob p"
    "found_unsupported q = found_unsupported p" using r by simp_all
qed

theorem copy_preserves_state_witness:
  "StackLSTM_copy fresh_heap (demo_stack 0)
     = Inr (demo_stack 1, fresh_heap\<lparr>frames := [[root_frame], [root_frame]]\<rparr>)
   \<and> StackLSTM_len (fresh_heap\<lparr>frames := [[root_frame], [root_frame]]\<rparr>) (demo_stack 1)
       = StackLSTM_len fresh_heap (demo_stack 0)
   \<and> element_from_top (fresh_heap\<lparr>frames := [[root_frame], [root_frame]]\<rparr>) (demo_stack 1) 0
       = element_from_top fresh_heap (demo_stack 0) 0
   \<and> lstm (demo_stack 1) = lstm (demo_stack 0)
   \<and> empty (demo_stack 1) = empty (demo_stack 0)
   \<and> ParserState_copy demo_heap (demo_state 0 1 0) = Inr (demo_state_copy, demo_heap_copy)
   \<and> get_list (ints demo_heap_copy) (predicted_actions_idx demo_state_copy)
       = get_list (ints demo_heap) (predicted_actions_idx (demo_state 0 1 0))
   \<and> get_list (floats demo_heap_copy) (action_scores demo_state_copy)
       = get_list (floats demo_heap) (action_scores (demo_state 0 1 0))
   \<and> get_list (bools demo_heap_copy) (is_open_NT demo_state_copy)
       = get_list (bools demo_heap) (is_open_NT (demo_state 0 1 0))
   \<and> num_open_NT demo_state_copy = num_open_NT (demo_state 0 1 0)
   \<and> neg_prob demo_state_copy = neg_prob (demo_state 0 1 0)
   \<and> found_unsupported demo_state_copy = found_unsupported (demo_state 0 1 0)"
  using copy_preserves_state [where h = fresh_heap and s = "demo_stack 0" and c = "demo_stack 1"
        and ?h1.0 = "fresh_heap\<lparr>frames := [[root_frame], [root_frame]]\<rparr>"
        and g = demo_heap and p = "demo_state 0 1 0" and q = demo_state_copy
        and gq = demo_heap_copy]
      demo_copy demo_parser_copy
  by blast

subsection \<open>Composition\<close>

lemma lstm_steps_first:
  "fst (lstm_steps m (v # vs) hc) = fst (lstm_cell m v hc) # fst (lstm_steps m vs (lstm_cell m v hc))"
  by (simp add: Let_def split: prod.splits)

lemma LSTM_forward_first:
  "(case LSTM_forward m (v # vs) st of Inl e \<Rightarrow> Inl e | Inr r \<Rightarrow>
      (case py_index (fst r) 0 of Inl e \<Rightarrow> Inl e | Inr w \<Rightarrow> K w)) =
     (if state_fits m st \<and> length v = input_size m \<and> (\<forall>t\<in>set vs. length t = input_size m)
      then K (fst (lstm_cell m v (hd (fst st), hd (snd st))))
      else Inl RuntimeError)"
proof (cases "state_fits m st \<and> length v = input_size m \<and> (\<forall>t\<in>set vs. length t = input_size m)")
  case True
  obtain out hn cn where s: "lstm_steps m (v # vs) (hd (fst st), hd (snd st)) = (out, (hn, cn))"
    by (metis prod.exhaust)
  have o: "out = fst (lstm_cell m v (hd (fst st), hd (snd st)))
              # fst (lstm_steps m vs (lstm_cell m v (hd (fst st), hd (snd st))))"
    using lstm_steps_first[of m v vs "(hd (fst st), hd (snd st))"] s by simp
  have "LSTM_forward m (v # vs) st = Inr (out, ([hn], [cn]))"
    using True s unfolding LSTM_forward_def state_fits_def by (simp add: list_all_iff)
  then show ?thesis using True by (simp add: o py_index_def)
next
  case False
  then have "LSTM_forward m (v # vs) st = Inl RuntimeError"
    unfolding LSTM_forward_def state_fits_def by (auto simp: list_all_iff)
  then show ?thesis by (simp only: if_not_P[OF False] sum.case)
qed

lemma torch_stack_cons:
  "torch_stack (v # vs) = (if \<forall>t\<in>set vs. length t = length v then Inr (v # vs) else Inl RuntimeError)"
  by (auto simp: torch_stack_def list_all_iff)

lemma pass_first:
  "(case torch_stack (v # vs) of Inl e \<Rightarrow> Inl e | Inr sf \<Rightarrow>
     (case LSTM_forward m sf st of Inl e \<Rightarrow> Inl e | Inr r \<Rightarrow>
       (case py_index (fst r) 0 of Inl e \<Rightarrow> Inl e | Inr w \<Rightarrow> K w))) =
     (if (\<forall>t\<in>set vs. length t = length v) \<and> state_fits m st \<and> length v = input_size m
      then K (fst (lstm_cell m v (hd (fst st), hd (snd st))))
      else Inl RuntimeError)"
proof (cases "\<forall>t\<in>set vs. length t = length v")
  case True
  then have "torch_stack (v # vs) = Inr (v # vs)" by (simp add: torch_stack_cons)
  then show ?thesis using True LSTM_forward_first[where m = m and v = v and vs = vs and st = st and K = K]
    by auto
next
  case False
  then have "torch_stack (v # vs) = Inl RuntimeError" by (simp add: torch_stack_cons)
  then show ?thesis using False by auto
qed

lemma forward_reads_nonterminal:
  "CompositionalNN_forward n hf hr (xs @ [nt]) =
     (if (\<forall>t\<in>set xs. length t = length nt)
         \<and> state_fits (lstm_fwd n) hf \<and> length nt = input_size (lstm_fwd n)
         \<and> state_fits (lstm_rev n) hr \<and> length nt = input_size (lstm_rev n)
      then linear_tanh (linear_seq n)
             (fst (lstm_cell (lstm_fwd n) nt (hd (fst hf), hd (snd hf)))
              @ fst (lstm_cell (lstm_rev n) nt (hd (fst hr), hd (snd hr))))
      else Inl RuntimeError)"
proof -
  have idx: "py_index (xs @ [nt]) (- 1) = Inr nt" by (simp add: py_index_def)
  show ?thesis
    unfolding CompositionalNN_forward_def idx
    by (simp add: Let_def pass_first del: set_rev) (auto simp: pass_first)
qed

lemma forward_ignores_children:
  assumes "set (map length xs) = set (map length ys)"
  shows "CompositionalNN_forward n hf hr (xs @ [nt]) = CompositionalNN_forward n hf hr (ys @ [nt])"
proof -
  have "(\<forall>t\<in>set xs. length t = length nt) \<longleftrightarrow> (\<forall>t\<in>set ys. length t = length nt)"
    using assms by (metis (no_types, lifting) image_iff list.set_map)
  then show ?thesis by (simp only: forward_reads_nonterminal)
qed











lemma code_val_any:
  "CompositionalNN_forward unit_nn ([[p]], [[a]]) ([[q]], [[b]]) [[1], [0]]
     = Inr [tanh (tanh (a / 2) / 2 + tanh (b / 2) / 2)]"
  using forward_reads_nonterminal[of unit_nn "([[p]], [[a]])" "([[q]], [[b]])" "[[1]]" "[0]"]
  by (simp add: state_fits_def unit_nn_def unit_cell linear_tanh_def Linear_forward_def
      matvec_def dot_def)

lemma spec_val_any:
  "CompositionalNN_spec unit_nn ([[p]], [[a]]) ([[q]], [[b]]) [[1], [0]]
     = Inr [tanh (tanh (a / 4 + tanh 1 / 2) / 2 + tanh (b / 4 + tanh 1 / 2) / 2)]"
  by (simp add: CompositionalNN_spec_def unit_nn_def py_index_def torch_stack_def
      LSTM_forward_def unit_cell linear_tanh_def Linear_forward_def matvec_def dot_def Let_def
      lstm_output_def)




text \<open>
  Claim C7: on a non-empty list the bidirectional composition is the projection, through
  the linear map and \<open>tanh\<close>, of the concatenated \<^emph>\<open>final\<close> hidden rows of the forward
  pass and of the backward pass.

  The code concatenates the hidden rows after the \<^emph>\<open>first\<close> step of each pass
  (\<^verbatim>\<open>[0][0]\<close>), which is the step that reads the nonterminal. On the child \<open>[1]\<close> under
  the nonterminal \<open>[0]\<close>, with the unit module, \<^verbatim>\<open>forward\<close> and the composition of the
  docstring differ for all initial hidden rows and all initial cell rows below
  \<open>2 * tanh 1\<close>; with zero initial states \<^verbatim>\<open>forward\<close> returns \<open>[0]\<close> and the
  composition of the docstring a positive number.
\<close>

theorem composition_reads_first_step:
  assumes "a < 2 * tanh 1" and "b < 2 * tanh 1"
  shows "CompositionalNN_forward unit_nn ([[p]], [[a]]) ([[q]], [[b]]) [[1], [0]]
           = Inr [tanh (tanh (a / 2) / 2 + tanh (b / 2) / 2)]
       \<and> CompositionalNN_spec unit_nn ([[p]], [[a]]) ([[q]], [[b]]) [[1], [0]]
           = Inr [tanh (tanh (a / 4 + tanh 1 / 2) / 2 + tanh (b / 4 + tanh 1 / 2) / 2)]
       \<and> CompositionalNN_forward unit_nn ([[p]], [[a]]) ([[q]], [[b]]) [[1], [0]]
           \<noteq> CompositionalNN_spec unit_nn ([[p]], [[a]]) ([[q]], [[b]]) [[1], [0]]"
proof -
  have "a / 2 < a / 4 + tanh 1 / 2" using assms(1) by simp
  then have 1: "tanh (a / 2) / 2 < tanh (a / 4 + tanh 1 / 2) / 2" by simp
  have "b / 2 < b / 4 + tanh 1 / 2" using assms(2) by simp
  then have 2: "tanh (b / 2) / 2 < tanh (b / 4 + tanh 1 / 2) / 2" by simp
  have "tanh (tanh (a / 2) / 2 + tanh (b / 2) / 2)
      < tanh (tanh (a / 4 + tanh 1 / 2) / 2 + tanh (b / 4 + tanh 1 / 2) / 2)"
    using 1 2 by (simp only: tanh_real_less_iff add_strict_mono)
  then show ?thesis by (simp add: code_val_any spec_val_any)
qed

theorem composition_reads_first_step_witness:
  "(0 :: real) < 2 * tanh 1
   \<and> CompositionalNN_forward unit_nn ([[0]], [[0]]) ([[0]], [[0]]) [[1], [0]] = Inr [0]
   \<and> CompositionalNN_spec unit_nn ([[0]], [[0]]) ([[0]], [[0]]) [[1], [0]]
       = Inr [tanh (tanh (tanh 1 / 2) / 2 + tanh (tanh 1 / 2) / 2)]
   \<and> CompositionalNN_forward unit_nn ([[0]], [[0]]) ([[0]], [[0]]) [[1], [0]]
       \<noteq> CompositionalNN_spec unit_nn ([[0]], [[0]]) ([[0]], [[0]]) [[1], [0]]"
proof -
  have p: "(0 :: real) < 2 * tanh 1" by simp
  show ?thesis
    using composition_reads_first_step [OF p p, of 0 0] p by simp
qed







end
